theory Spec2Isabelle
  imports Main
begin

section \<open>JavaScript values of the RPC client\<close>

text \<open>
  The client (class \<open>RaiClient\<close>) builds a JSON body from an action name and a parameter
  object, posts it to the node and settles a promise with the answer. The values that
  flow through it are JavaScript values. A Number is represented by its mathematical
  value, which the model restricts to integers (counts, ports, status codes, the pending
  threshold). \<open>BigInt\<close> stands for a BigInt value and \<open>Cyclic\<close> for a reference to an object
  that encloses the place where it occurs (a circular structure): \<open>JSON.stringify\<close>
  throws a TypeError on both. An object is the list of its own enumerable properties in
  enumeration order.
\<close>

datatype jsval =
    Undefined
  | Null
  | Bool bool
  | Num int
  | Str string
  | Arr "jsval list"
  | Obj "(string \<times> jsval) list"
  | BigInt int
  | Cyclic

datatype js_error =
    TypeError string
  | SyntaxError string
  | Error string
  | SystemError string

text \<open>\<open>ToBoolean\<close>, as used by \<open>!this.deserializeJSON\<close>.\<close>

fun ToBoolean :: "jsval \<Rightarrow> bool" where
  "ToBoolean Undefined = False"
| "ToBoolean Null = False"
| "ToBoolean (Bool b) = b"
| "ToBoolean (Num n) = (n \<noteq> 0)"
| "ToBoolean (Str s) = (s \<noteq> [])"
| "ToBoolean (BigInt n) = (n \<noteq> 0)"
| "ToBoolean v = True"

text \<open>\<open>Error.prototype.toString\<close>: the name, then \<open>": "\<close> and the message unless it is empty.\<close>

fun error_name :: "js_error \<Rightarrow> string" where
  "error_name (TypeError m) = ''TypeError''"
| "error_name (SyntaxError m) = ''SyntaxError''"
| "error_name (Error m) = ''Error''"
| "error_name (SystemError m) = ''Error''"

fun error_message :: "js_error \<Rightarrow> string" where
  "error_message (TypeError m) = m"
| "error_message (SyntaxError m) = m"
| "error_message (Error m) = m"
| "error_message (SystemError m) = m"

definition error_toString :: "js_error \<Rightarrow> string" where
  "error_toString e =
     (if error_message e = [] then error_name e else error_name e @ '': '' @ error_message e)"

text \<open>\<open>new Error(e)\<close>: the message of the new error is \<open>String(e)\<close>.\<close>

definition new_Error :: "js_error \<Rightarrow> js_error" where
  "new_Error e = Error (error_toString e)"

section \<open>Numbers: literals and \<open>Number::toString\<close>\<close>

text \<open>
  A numeric literal denotes the double nearest to its mathematical value (ties to the even
  significand). For a non-negative integer this is computed on integers: a value below
  \<open>2^53\<close> is exact, a larger one keeps its 53 leading bits, rounded. Values from \<open>2^1024\<close> on
  (which round to \<open>Infinity\<close>) are outside the model.
\<close>

function bitlen :: "int \<Rightarrow> nat" where
  "bitlen n = (if n \<le> 0 then 0 else Suc (bitlen (n div 2)))"
  by pat_completeness auto
termination
  by (relation "measure nat") auto

declare bitlen.simps [simp del]

definition round_to_double :: "int \<Rightarrow> int" where
  "round_to_double m =
     (if m < 2 ^ 53 then m
      else let e = bitlen m - 53;
               q = m div 2 ^ e;
               r = m mod 2 ^ e;
               h = 2 ^ (e - 1);
               q' = (if h < r \<or> (r = h \<and> odd q) then q + 1 else q)
           in q' * 2 ^ e)"

definition NumericLiteral :: "int \<Rightarrow> jsval" where
  "NumericLiteral m = Num (round_to_double m)"

text \<open>Decimal digits of a non-negative integer, most significant first.\<close>

function digits_rev :: "int \<Rightarrow> string" where
  "digits_rev n =
     (''0123456789'' ! nat (n mod 10)) # (if n < 10 then [] else digits_rev (n div 10))"
  by pat_completeness auto
termination
  by (relation "measure nat") auto

declare digits_rev.simps [simp del]

definition decimal :: "int \<Rightarrow> string" where
  "decimal n = rev (digits_rev n)"

text \<open>
  \<open>Number::toString\<close> of a positive integer-valued Number \<open>x\<close>: take integers \<open>n\<close>, \<open>k\<close>, \<open>s\<close>
  with \<open>k\<close> digits in \<open>s\<close> such that \<open>s * 10^(n-k)\<close> denotes \<open>x\<close> (rounds to it), \<open>k\<close> as small
  as possible and, for that \<open>k\<close>, the value closest to \<open>x\<close>. \<open>shortest_decimal x\<close> is the
  value \<open>s * 10^(n-k)\<close>: for each \<open>k\<close> from 1 up to the number of digits of \<open>x\<close> the two
  multiples of \<open>10^(d-k)\<close> around \<open>x\<close> are tried, the closer one first. With \<open>n\<close> the
  number of digits of that value, the text is the plain decimal when \<open>n \<le> 21\<close> and the
  exponential form otherwise.
\<close>

definition candidates :: "int \<Rightarrow> nat \<Rightarrow> int list" where
  "candidates x k =
     (let p = 10 ^ (length (decimal x) - k);
          lo = (x div p) * p;
          hi = lo + p
      in if x - lo < hi - x \<or> (x - lo = hi - x \<and> even (x div p)) then [lo, hi] else [hi, lo])"

definition shortest_decimal :: "int \<Rightarrow> int" where
  "shortest_decimal x =
     (case List.find (\<lambda>c. round_to_double c = x)
             (concat (map (candidates x) [1 ..< Suc (length (decimal x))])) of
        Some c \<Rightarrow> c
      | None \<Rightarrow> x)"

definition strip_zeros :: "string \<Rightarrow> string" where
  "strip_zeros ds = rev (dropWhile (\<lambda>c. c = CHR ''0'') (rev ds))"

definition pos_toString :: "int \<Rightarrow> string" where
  "pos_toString x =
     (let ds = decimal (shortest_decimal x);
          n = length ds;
          s = strip_zeros ds
      in if n \<le> 21 then ds
         else if length s = 1 then s @ ''e+'' @ decimal (int (n - 1))
         else hd s # ''.'' @ tl s @ ''e+'' @ decimal (int (n - 1)))"

definition Number_toString :: "int \<Rightarrow> string" where
  "Number_toString x =
     (if x = 0 then ''0''
      else if x < 0 then ''-'' @ pos_toString (- x)
      else pos_toString x)"

section \<open>\<open>JSON.stringify\<close>\<close>

text \<open>
  \<open>QuoteJSONString\<close>: the quote and the backslash are escaped, control characters get their
  short escape or \<open>\u00XX\<close>, every other character is copied.
\<close>

definition hex_digit :: "nat \<Rightarrow> char" where
  "hex_digit d = ''0123456789abcdef'' ! d"

definition escape_char :: "char \<Rightarrow> string" where
  \<open>escape_char c =
     (let n = (of_char c :: nat) in
      if c = CHR ''"'' then [CHR 0x5C, CHR ''"'']
      else if c = CHR 0x5C then [CHR 0x5C, CHR 0x5C]
      else if n = 8 then [CHR 0x5C, CHR ''b'']
      else if n = 9 then [CHR 0x5C, CHR ''t'']
      else if n = 10 then [CHR 0x5C, CHR ''n'']
      else if n = 12 then [CHR 0x5C, CHR ''f'']
      else if n = 13 then [CHR 0x5C, CHR ''r'']
      else if n < 32 then [CHR 0x5C, CHR ''u'', CHR ''0'', CHR ''0'', hex_digit (n div 16), hex_digit (n mod 16)]
      else [c])\<close>

definition QuoteJSONString :: "string \<Rightarrow> string" where
  \<open>QuoteJSONString s = ''"'' @ concat (map escape_char s) @ ''"''\<close>

fun join :: "string \<Rightarrow> string list \<Rightarrow> string" where
  "join sep [] = []"
| "join sep [x] = x"
| "join sep (x # y # ys) = x @ sep @ join sep (y # ys)"

text \<open>
  \<open>SerializeJSONProperty\<close> yields no text (\<open>None\<close>) for \<open>undefined\<close>; an array prints such an
  element as \<open>null\<close> and an object leaves the member out. A BigInt or a circular reference
  throws.
\<close>

definition circular_message :: string where
  "circular_message = ''Converting circular structure to JSON''"

definition bigint_message :: string where
  "bigint_message = ''Do not know how to serialize a BigInt''"

fun SerializeJSONProperty :: "jsval \<Rightarrow> js_error + string option"
  and SerializeJSONArray :: "jsval list \<Rightarrow> js_error + string list"
  and SerializeJSONObject :: "(string \<times> jsval) list \<Rightarrow> js_error + string list"
where
  "SerializeJSONProperty Undefined = Inr None"
| "SerializeJSONProperty Null = Inr (Some ''null'')"
| "SerializeJSONProperty (Bool b) = Inr (Some (if b then ''true'' else ''false''))"
| "SerializeJSONProperty (Num n) = Inr (Some (Number_toString n))"
| "SerializeJSONProperty (Str s) = Inr (Some (QuoteJSONString s))"
| "SerializeJSONProperty (BigInt n) = Inl (TypeError bigint_message)"
| "SerializeJSONProperty Cyclic = Inl (TypeError circular_message)"
| "SerializeJSONProperty (Arr xs) =
     (case SerializeJSONArray xs of
        Inl e \<Rightarrow> Inl e
      | Inr parts \<Rightarrow> Inr (Some (''['' @ join '','' parts @ '']'')))"
| "SerializeJSONProperty (Obj kvs) =
     (case SerializeJSONObject kvs of
        Inl e \<Rightarrow> Inl e
      | Inr members \<Rightarrow> Inr (Some (''{'' @ join '','' members @ ''}'')))"
| "SerializeJSONArray [] = Inr []"
| "SerializeJSONArray (x # xs) =
     (case SerializeJSONProperty x of
        Inl e \<Rightarrow> Inl e
      | Inr r \<Rightarrow>
          (case SerializeJSONArray xs of
             Inl e \<Rightarrow> Inl e
           | Inr parts \<Rightarrow> Inr ((case r of None \<Rightarrow> ''null'' | Some t \<Rightarrow> t) # parts)))"
| "SerializeJSONObject [] = Inr []"
| "SerializeJSONObject ((k, v) # kvs) =
     (case SerializeJSONProperty v of
        Inl e \<Rightarrow> Inl e
      | Inr r \<Rightarrow>
          (case SerializeJSONObject kvs of
             Inl e \<Rightarrow> Inl e
           | Inr members \<Rightarrow>
               Inr (case r of
                      None \<Rightarrow> members
                    | Some t \<Rightarrow> (QuoteJSONString k @ '':'' @ t) # members)))"

text \<open>
  \<open>JSON.stringify\<close> of an object, the only use the client makes of it: the result is
  always a text, or the error thrown while a member was serialized.
\<close>

definition JSON_stringify :: "(string \<times> jsval) list \<Rightarrow> js_error + string" where
  "JSON_stringify kvs =
     (case SerializeJSONObject kvs of
        Inl e \<Rightarrow> Inl e
      | Inr members \<Rightarrow> Inr (''{'' @ join '','' members @ ''}''))"

section \<open>Object literals with a spread\<close>

text \<open>
  The own properties of an object are enumerated with the array indices first, in
  ascending order, then the other keys in the order of their creation. An array index
  is the canonical decimal text of an integer below \<open>2^32 - 1\<close>.
\<close>

definition is_digit :: "char \<Rightarrow> bool" where
  "is_digit c = (let n = (of_char c :: nat) in 48 \<le> n \<and> n \<le> 57)"

definition digit_value :: "char \<Rightarrow> int" where
  "digit_value c = int (of_char c) - 48"

definition parse_decimal :: "string \<Rightarrow> int" where
  "parse_decimal k = foldl (\<lambda>a c. 10 * a + digit_value c) 0 k"

definition array_index :: "string \<Rightarrow> int option" where
  "array_index k =
     (if k \<noteq> [] \<and> list_all is_digit k \<and> (k = ''0'' \<or> hd k \<noteq> CHR ''0'')
         \<and> parse_decimal k < 2 ^ 32 - 1
      then Some (parse_decimal k) else None)"

fun insert_index :: "int \<Rightarrow> string \<Rightarrow> jsval \<Rightarrow> (string \<times> jsval) list \<Rightarrow> (string \<times> jsval) list" where
  "insert_index i k v [] = [(k, v)]"
| "insert_index i k v ((k', v') # rest) =
     (case array_index k' of
        Some j \<Rightarrow> if j < i then (k', v') # insert_index i k v rest else (k, v) # (k', v') # rest
      | None \<Rightarrow> (k, v) # (k', v') # rest)"

text \<open>
  \<open>CreateDataProperty\<close>: an existing key keeps its place and takes the new value, a new
  array index goes among the indices, any other new key goes last.
\<close>

definition set_property :: "(string \<times> jsval) list \<Rightarrow> string \<times> jsval \<Rightarrow> (string \<times> jsval) list" where
  "set_property obj kv =
     (case kv of (k, v) \<Rightarrow>
        if map_of obj k \<noteq> None then map (\<lambda>(k', v'). if k' = k then (k', v) else (k', v')) obj
        else (case array_index k of
                Some i \<Rightarrow> insert_index i k v obj
              | None \<Rightarrow> obj @ [(k, v)]))"

text \<open>
  The properties that \<open>...params\<close> copies: those of an object, the elements of an array
  and the characters of a string under their indices, nothing for any other value.
\<close>

fun own_enumerable :: "jsval \<Rightarrow> (string \<times> jsval) list" where
  "own_enumerable (Obj kvs) = kvs"
| "own_enumerable (Arr xs) = zip (map (\<lambda>i. decimal (int i)) [0 ..< length xs]) xs"
| "own_enumerable (Str s) = zip (map (\<lambda>i. decimal (int i)) [0 ..< length s]) (map (\<lambda>c. Str [c]) s)"
| "own_enumerable v = []"

definition spread :: "(string \<times> jsval) list \<Rightarrow> jsval \<Rightarrow> (string \<times> jsval) list" where
  "spread obj params = foldl set_property obj (own_enumerable params)"

section \<open>The client and its request builder\<close>

record client =
  nodeAddress :: string
  deserializeJSON :: jsval

text \<open>\<open>constructor(nodeAddress, deserializeJSON = true)\<close>.\<close>

definition dflt :: "jsval \<Rightarrow> jsval \<Rightarrow> jsval" where
  "dflt d v = (if v = Undefined then d else v)"

definition RaiClient :: "string \<Rightarrow> jsval \<Rightarrow> client" where
  "RaiClient addr d = \<lparr>nodeAddress = addr, deserializeJSON = dflt (Bool True) d\<rparr>"

record rpc_req =
  url :: string
  body :: string

text \<open>
  \<open>_buildRPCReq(action, params)\<close>: the url is the node address and a slash; the body is
  the text of \<open>{action: action}\<close> when \<open>params\<close> is \<open>undefined\<close> and of
  \<open>{action: action, ...params}\<close> otherwise. An error of \<open>JSON.stringify\<close> is caught and
  thrown again inside a new \<open>Error\<close>.
\<close>

definition private_buildRPCReq :: "client \<Rightarrow> string \<Rightarrow> jsval \<Rightarrow> js_error + rpc_req" where
  "private_buildRPCReq this action params =
     (case (if params = Undefined
            then JSON_stringify [(''action'', Str action)]
            else JSON_stringify (spread [(''action'', Str action)] params)) of
        Inl e \<Rightarrow> Inl (new_Error e)
      | Inr t \<Rightarrow> Inr \<lparr>url = nodeAddress this @ ''/'', body = t\<rparr>)"

section \<open>Decoding a body\<close>















definition index_rank :: "string \<times> jsval \<Rightarrow> int" where
  "index_rank kv = (case array_index (fst kv) of Some i \<Rightarrow> i | None \<Rightarrow> 2 ^ 32)"



section \<open>The URL of the node\<close>

text \<open>
  \<open>new URL(s)\<close>. The text must start with a scheme and a colon, else the URL is invalid.
  For the schemes with a default port (\<open>http\<close>, \<open>https\<close>, \<open>ws\<close>, \<open>wss\<close>, \<open>ftp\<close>) any slashes
  and backslashes after the colon are skipped and an authority
  \<open>[userinfo@]host[:port]\<close> follows, whose host must not be empty. For another scheme an
  authority follows only after \<open>//\<close>; without it the host and the port are empty and the
  rest is the path. The accessors give the scheme in lower case followed by a colon
  (\<open>protocol\<close>), the host in lower case, the port as a text that is empty when it is the
  default of the scheme, and the path (\<open>/\<close> when it is empty after the authority of a
  scheme with a default port, where a backslash also counts as a slash). Percent-encoding, dot segments, international host names
  and the number forms of IPv4 addresses are not modelled, nor is the scheme \<open>file\<close>.
\<close>

record url_record =
  url_protocol :: string
  url_hostname :: string
  url_port :: string
  url_pathname :: string

definition is_alpha :: "char \<Rightarrow> bool" where
  "is_alpha c = (let n = (of_char c :: nat) in (65 \<le> n \<and> n \<le> 90) \<or> (97 \<le> n \<and> n \<le> 122))"

definition to_lower :: "char \<Rightarrow> char" where
  "to_lower c = (let n = (of_char c :: nat) in if 65 \<le> n \<and> n \<le> 90 then char_of (n + 32) else c)"

definition scheme_char :: "char \<Rightarrow> bool" where
  "scheme_char c = (is_alpha c \<or> is_digit c \<or> c = CHR ''+'' \<or> c = CHR ''-'' \<or> c = CHR ''.'')"

definition default_port :: "string \<Rightarrow> string" where
  "default_port proto =
     (if proto = ''http:'' \<or> proto = ''ws:'' then ''80''
      else if proto = ''https:'' \<or> proto = ''wss:'' then ''443''
      else if proto = ''ftp:'' then ''21''
      else [])"

definition after_last_at :: "string \<Rightarrow> string" where
  "after_last_at a = rev (takeWhile (\<lambda>c. c \<noteq> CHR ''@'') (rev a))"

text \<open>The host and the text after it: an IPv6 literal runs to its closing bracket.\<close>

definition split_host :: "string \<Rightarrow> string \<times> string" where
  "split_host hp =
     (if hp \<noteq> [] \<and> hd hp = CHR ''[''
      then (takeWhile (\<lambda>c. c \<noteq> CHR '']'') hp @ take 1 (dropWhile (\<lambda>c. c \<noteq> CHR '']'') hp),
            drop 1 (dropWhile (\<lambda>c. c \<noteq> CHR '']'') hp))
      else (takeWhile (\<lambda>c. c \<noteq> CHR '':'') hp, dropWhile (\<lambda>c. c \<noteq> CHR '':'') hp))"

definition invalid_url :: js_error where
  "invalid_url = TypeError ''Invalid URL''"

text \<open>
  The authority and the path of \<open>s\<close>, for a protocol: \<open>special\<close> says that the scheme has a
  default port.
\<close>

definition parse_authority :: "string \<Rightarrow> bool \<Rightarrow> string \<Rightarrow> js_error + url_record" where
  "parse_authority proto special s =
     (let stop = (\<lambda>c. c = CHR ''/'' \<or> c = CHR ''?'' \<or> c = CHR ''#'' \<or> (special \<and> c = CHR 0x5C));
          authority = takeWhile (\<lambda>c. \<not> stop c) s;
          tail = dropWhile (\<lambda>c. \<not> stop c) s;
          pathtext = takeWhile (\<lambda>c. c \<noteq> CHR ''?'' \<and> c \<noteq> CHR ''#'') tail;
          host = fst (split_host (after_last_at authority));
          colon_port = snd (split_host (after_last_at authority));
          digits = drop 1 colon_port
      in if (special \<and> host = []) \<or> (colon_port \<noteq> [] \<and> hd colon_port \<noteq> CHR '':'')
            \<or> \<not> list_all is_digit digits \<or> 65535 < parse_decimal digits
         then Inl invalid_url
         else
           let p = (if digits = [] then [] else decimal (parse_decimal digits))
           in Inr \<lparr>url_protocol = proto,
                   url_hostname = map to_lower host,
                   url_port = (if p = default_port proto then [] else p),
                   url_pathname =
                     (if pathtext = [] \<and> special then ''/''
                      else map (\<lambda>c. if special \<and> c = CHR 0x5C then CHR ''/'' else c) pathtext)\<rparr>)"

definition URL_new :: "string \<Rightarrow> js_error + url_record" where
  "URL_new s =
     (let scheme = takeWhile (\<lambda>c. c \<noteq> CHR '':'') s;
          rest = dropWhile (\<lambda>c. c \<noteq> CHR '':'') s
      in if rest = [] \<or> scheme = [] \<or> \<not> is_alpha (hd scheme) \<or> \<not> list_all scheme_char scheme
         then Inl invalid_url
         else
           let proto = map to_lower scheme @ '':'';
               after = tl rest
           in if default_port proto \<noteq> []
              then parse_authority proto True
                     (dropWhile (\<lambda>c. c = CHR ''/'' \<or> c = CHR 0x5C) after)
              else if take 2 after = ''//''
              then parse_authority proto False (drop 2 after)
              else Inr \<lparr>url_protocol = proto, url_hostname = [], url_port = [],
                      url_pathname = takeWhile (\<lambda>c. c \<noteq> CHR ''?'' \<and> c \<noteq> CHR ''#'') after\<rparr>)"

section \<open>Promises, requests and the runtime\<close>

text \<open>A promise is settled once: a later \<open>resolve\<close> or \<open>reject\<close> changes nothing.\<close>

datatype promise = Pending | Fulfilled jsval | Rejected js_error

fun resolve :: "jsval \<Rightarrow> promise \<Rightarrow> promise" where
  "resolve v Pending = Fulfilled v"
| "resolve v p = p"

fun reject :: "js_error \<Rightarrow> promise \<Rightarrow> promise" where
  "reject e Pending = Rejected e"
| "reject e p = p"

datatype transport = Http | Https

text \<open>
  The options object given to \<open>lib.request\<close> has the four properties below
  (\<open>http_method\<close> is its property \<open>method\<close>) and no \<open>headers\<close> property; the client never
  calls \<open>setHeader\<close>. An issued request is recorded with the module that sent it, its options, the headers the client set and the text
  written to it.
\<close>

record request_options =
  hostname :: string
  port :: string
  http_method :: string
  path :: string

record http_request =
  lib :: transport
  options :: request_options
  headers :: "(string \<times> string) list"
  written :: string

datatype net_result = NetError js_error | Response int "string list"

datatype post_result = PostError js_error | PostDone int string

text \<open>
  What the client does to the outside is kept in a trace: a request issued through the
  \<open>http\<close> or \<open>https\<close> module, a request posted through the \<open>request\<close> library, a call of
  \<open>JSON.parse\<close>.
\<close>

datatype effect = HttpRequest http_request | RequestPost rpc_req | JSONParse string

text \<open>
  The runtime is a parameter: \<open>JSON.parse\<close>, the network behind the \<open>http\<close> modules (a
  fault before any response, or a status code and the chunks of the body in arrival
  order, each chunk given by its text), the \<open>request\<close> library (an error, or a status
  code and the body text) and the object that library binds to \<open>this\<close> when it calls the
  callback.
\<close>

record runtime =
  JSON_parse :: "string \<Rightarrow> js_error + jsval"
  network :: "http_request \<Rightarrow> net_result"
  request_post :: "rpc_req \<Rightarrow> post_result"
  callback_this :: "(string \<times> jsval) list"

record outcome =
  promise :: promise
  trace :: "effect list"

section \<open>\<open>_send\<close> over the \<open>http\<close> and \<open>https\<close> modules\<close>

text \<open>
  The handler of \<open>end\<close>: the chunks are joined with the empty separator; the text is the
  result when \<open>deserializeJSON\<close> is falsy, else it is parsed and the promise is resolved
  with the value or rejected with the exception of the parser.
\<close>

definition response_end :: "client \<Rightarrow> runtime \<Rightarrow> string list \<Rightarrow> outcome \<Rightarrow> outcome" where
  "response_end this rt chunks st =
     (let data = join [] chunks
      in if \<not> ToBoolean (deserializeJSON this)
         then st\<lparr>promise := resolve (Str data) (promise st)\<rparr>
         else (case JSON_parse rt data of
                 Inr v \<Rightarrow> st\<lparr>promise := resolve v (promise st), trace := trace st @ [JSONParse data]\<rparr>
               | Inl e \<Rightarrow> st\<lparr>promise := reject e (promise st), trace := trace st @ [JSONParse data]\<rparr>))"

text \<open>
  The callback of \<open>lib.request\<close>: a status code outside 200..299 rejects, without
  returning; the chunks are collected and the handler of \<open>end\<close> runs in every case.
\<close>

definition response_callback :: "client \<Rightarrow> runtime \<Rightarrow> int \<Rightarrow> string list \<Rightarrow> outcome \<Rightarrow> outcome" where
  "response_callback this rt statusCode chunks st =
     (let st1 = (if statusCode < 200 \<or> 299 < statusCode
                 then st\<lparr>promise := reject (Error (''Failed to fetch URL. Status code: '' @ Number_toString statusCode)) (promise st)\<rparr>
                 else st)
      in response_end this rt chunks st1)"

text \<open>
  The request that \<open>_send\<close> issues for a parsed URL and a descriptor: the module is chosen
  by comparing \<open>url.protocol\<close> with \<open>"https"\<close>, the options take the host, the port and
  the path of the URL, the method is POST, and the body of the descriptor is written.
\<close>

definition request_of :: "url_record \<Rightarrow> rpc_req \<Rightarrow> http_request" where
  "request_of u req =
     (let lib = (if url_protocol u = ''https'' then Https else Http);
          requestOptions = \<lparr>hostname = url_hostname u, port = url_port u,
                             http_method = ''POST'', path = url_pathname u\<rparr>
      in \<lparr>lib = lib, options = requestOptions, headers = [], written = body req\<rparr>)"

text \<open>
  \<open>_send(method, params)\<close>: an exception of the builder rejects and returns; an exception of
  \<open>new URL\<close> inside the executor rejects as well; else the request is issued, a fault of
  the network rejects, and a response goes to the callback.
\<close>

definition private_send :: "client \<Rightarrow> runtime \<Rightarrow> string \<Rightarrow> jsval \<Rightarrow> outcome" where
  "private_send this rt method_name params =
     (case private_buildRPCReq this method_name params of
        Inl err \<Rightarrow> \<lparr>promise = reject err Pending, trace = []\<rparr>
      | Inr req \<Rightarrow>
          (case URL_new (url req) of
             Inl e \<Rightarrow> \<lparr>promise = reject e Pending, trace = []\<rparr>
           | Inr u \<Rightarrow>
               (let request = request_of u req;
                    st = \<lparr>promise = Pending, trace = [HttpRequest request]\<rparr>
                in case network rt request of
                     NetError e \<Rightarrow> st\<lparr>promise := reject e (promise st)\<rparr>
                   | Response statusCode chunks \<Rightarrow> response_callback this rt statusCode chunks st)))"

section \<open>\<open>_send\<close> over the \<open>request\<close> library\<close>

text \<open>
  The second \<open>RaiClient\<close> posts the descriptor with \<open>request.post(req, function (err, req, data) ...)\<close>.
  The callback is not an arrow function: its \<open>this\<close> is the object the library binds, and
  \<open>this.deserializeJSON\<close> is a property of that object. The status code is not looked at.
\<close>

definition get_property :: "(string \<times> jsval) list \<Rightarrow> string \<Rightarrow> jsval" where
  "get_property obj k = (case map_of obj k of Some v \<Rightarrow> v | None \<Rightarrow> Undefined)"

definition request_private_send :: "client \<Rightarrow> runtime \<Rightarrow> string \<Rightarrow> jsval \<Rightarrow> outcome" where
  "request_private_send this rt method_name params =
     (case private_buildRPCReq this method_name params of
        Inl err \<Rightarrow> \<lparr>promise = reject err Pending, trace = []\<rparr>
      | Inr req \<Rightarrow>
          (let st = \<lparr>promise = Pending, trace = [RequestPost req]\<rparr>
           in case request_post rt req of
                PostError err \<Rightarrow> st\<lparr>promise := reject err (promise st)\<rparr>
              | PostDone statusCode data \<Rightarrow>
                  if \<not> ToBoolean (get_property (callback_this rt) ''deserializeJSON'')
                  then st\<lparr>promise := resolve (Str data) (promise st)\<rparr>
                  else (case JSON_parse rt data of
                          Inr v \<Rightarrow> st\<lparr>promise := resolve v (promise st), trace := trace st @ [JSONParse data]\<rparr>
                        | Inl e \<Rightarrow> st\<lparr>promise := reject e (promise st), trace := trace st @ [JSONParse data]\<rparr>)))"

section \<open>Public methods\<close>


definition account_create :: "client \<Rightarrow> runtime \<Rightarrow> jsval \<Rightarrow> jsval \<Rightarrow> outcome" where
  "account_create this rt wallet work =
     private_send this rt ''account_create''
       (Obj [(''wallet'', wallet), (''work'', dflt (Bool True) work)])"

text \<open>\<open>accounts_create(accounts, count = 1, work = false)\<close> sends \<open>{ accounts, count }\<close>.\<close>

definition accounts_create :: "client \<Rightarrow> runtime \<Rightarrow> jsval \<Rightarrow> jsval \<Rightarrow> jsval \<Rightarrow> outcome" where
  "accounts_create this rt accounts count work =
     private_send this rt ''accounts_create''
       (Obj [(''accounts'', accounts), (''count'', dflt (NumericLiteral 1) count)])"

definition accounts_pending_params :: "jsval \<Rightarrow> jsval \<Rightarrow> jsval \<Rightarrow> jsval \<Rightarrow> jsval" where
  "accounts_pending_params accounts count threshold source =
     Obj [(''accounts'', accounts),
          (''count'', dflt (NumericLiteral 1) count),
          (''threshold'', dflt (NumericLiteral 1000000000000000000000000) threshold),
          (''source'', dflt (Bool False) source)]"

definition accounts_pending :: "client \<Rightarrow> runtime \<Rightarrow> jsval \<Rightarrow> jsval \<Rightarrow> jsval \<Rightarrow> jsval \<Rightarrow> outcome" where
  "accounts_pending this rt accounts count threshold source =
     private_send this rt ''accounts_pending'' (accounts_pending_params accounts count threshold source)"

definition block_count :: "client \<Rightarrow> runtime \<Rightarrow> outcome" where
  "block_count this rt = private_send this rt ''block_count'' Undefined"

definition ledger :: "client \<Rightarrow> runtime \<Rightarrow> jsval \<Rightarrow> jsval \<Rightarrow> jsval \<Rightarrow> jsval \<Rightarrow> jsval \<Rightarrow> jsval \<Rightarrow> outcome" where
  "ledger this rt account count representative weight pending sorting =
     private_send this rt ''ledger''
       (Obj [(''account'', account),
             (''count'', dflt (NumericLiteral 1) count),
             (''representative'', dflt (Bool False) representative),
             (''weight'', dflt (Bool False) weight),
             (''pending'', dflt (Bool False) pending),
             (''sorting'', dflt (Bool False) sorting)])"

text \<open>\<open>representatives(count = 1, sorting = false)\<close> calls \<open>this._send("representatives")\<close>.\<close>

definition representatives :: "client \<Rightarrow> runtime \<Rightarrow> jsval \<Rightarrow> jsval \<Rightarrow> outcome" where
  "representatives this rt count sorting = private_send this rt ''representatives'' Undefined"

section \<open>Observations on a trace and example runtimes\<close>

fun issued :: "effect \<Rightarrow> http_request list" where
  "issued (HttpRequest rq) = [rq]"
| "issued e = []"

definition requests :: "outcome \<Rightarrow> http_request list" where
  "requests out = concat (map issued (trace out))"

fun is_parse :: "effect \<Rightarrow> bool" where
  "is_parse (JSONParse d) = True"
| "is_parse e = False"

text \<open>A header that indicates JSON content: \<open>Content-Type\<close> with a value \<open>application/json\<close>.\<close>

definition json_content_header :: "string \<times> string \<Rightarrow> bool" where
  "json_content_header h =
     (map to_lower (fst h) = ''content-type'' \<and> take 16 (map to_lower (snd h)) = ''application/json'')"

definition json_post :: "http_request \<Rightarrow> bool" where
  "json_post rq = (http_method (options rq) = ''POST'' \<and> list_ex json_content_header (headers rq))"

text \<open>
  A node that answers every request with status 200 and the body \<open>{"count":"1"}\<close> in two
  chunks, a node that answers 404 with the same body, and a node whose body is not JSON.
  The parser of these runtimes knows that one text.
\<close>

definition example_parse :: "string \<Rightarrow> js_error + jsval" where
  \<open>example_parse s =
     (if s = ''{"count":"1"}'' then Inr (Obj [(''count'', Str ''1'')])
      else Inl (SyntaxError ''Unexpected token < in JSON at position 0''))\<close>

definition example_runtime :: runtime where
  \<open>example_runtime =
     \<lparr>JSON_parse = example_parse,
      network = (\<lambda>rq. Response 200 [''{"count"'', '':"1"}'']),
      request_post = (\<lambda>req. PostDone 200 ''{"count":"1"}''),
      callback_this = [(''method'', Str ''POST'')]\<rparr>\<close>

definition not_found_runtime :: runtime where
  \<open>not_found_runtime =
     \<lparr>JSON_parse = example_parse,
      network = (\<lambda>rq. Response 404 [''{"count"'', '':"1"}'']),
      request_post = (\<lambda>req. PostDone 404 ''{"count":"1"}''),
      callback_this = [(''method'', Str ''POST'')]\<rparr>\<close>

definition html_runtime :: runtime where
  \<open>html_runtime =
     \<lparr>JSON_parse = example_parse,
      network = (\<lambda>rq. Response 200 [''<html>'', ''</html>'']),
      request_post = (\<lambda>req. PostDone 200 ''<html></html>''),
      callback_this = [(''method'', Str ''POST'')]\<rparr>\<close>

text \<open>
  Example clients for the node address of the tests, one decoding and one not, a decoding
  client for the same node under its IPv4 address, a client of a node behind https, and
  what the decoding client builds for \<open>block_count\<close>.
\<close>

definition example_client :: client where
  "example_client = RaiClient ''http://[::1]:7076'' Undefined"

definition raw_client :: client where
  "raw_client = RaiClient ''http://[::1]:7076'' (Bool False)"

definition local_client :: client where
  "local_client = RaiClient ''http://127.0.0.1:7076'' Undefined"

definition https_client :: client where
  "https_client = RaiClient ''https://node.example:7076'' Undefined"

definition example_req :: rpc_req where
  \<open>example_req = \<lparr>url = ''http://[::1]:7076/'', body = ''{"action":"block_count"}''\<rparr>\<close>

definition example_url :: url_record where
  "example_url = \<lparr>url_protocol = ''http:'', url_hostname = ''[::1]'', url_port = ''7076'', url_pathname = ''/''\<rparr>"

section \<open>Facts about the runtime functions\<close>

lemma join_empty_sep: "join [] xs = concat xs"
  by (induction "[] :: string" xs rule: join.induct) simp_all












lemma private_send_response:
  assumes "private_buildRPCReq this m params = Inr req"
    and "URL_new (url req) = Inr u"
    and "network rt (request_of u req) = Response statusCode chunks"
  shows "private_send this rt m params =
           response_callback this rt statusCode chunks
             \<lparr>promise = Pending, trace = [HttpRequest (request_of u req)]\<rparr>"
  using assms by (simp add: private_send_def Let_def)

lemma no_parse_when_disabled:
  "\<not> ToBoolean (deserializeJSON this) \<Longrightarrow> filter is_parse (trace (private_send this rt m params)) = []"
  by (auto simp: private_send_def response_callback_def response_end_def Let_def
           split: sum.splits net_result.splits)

lemma example_build:
  "private_buildRPCReq example_client ''block_count'' Undefined = Inr example_req"
  by code_simp

lemma raw_build:
  "private_buildRPCReq raw_client ''block_count'' Undefined = Inr example_req"
  by code_simp

lemma example_parse_url: "URL_new (url example_req) = Inr example_url"
  by code_simp

lemma toString_404: "Number_toString 404 = ''404''"
  by code_simp

text \<open>
  The \<open>protocol\<close> of a parsed URL ends with a colon, so it is never the text \<open>https\<close>.
\<close>

lemma protocol_ends_with_colon: "URL_new s = Inr u \<Longrightarrow> url_protocol u \<noteq> ''https''"
  by (auto simp: URL_new_def parse_authority_def Let_def split: if_splits)

section \<open>Facts about the decoder and the merge\<close>












lemma decimal_zero: "decimal 0 = ''0''"
  by (simp add: decimal_def digits_rev.simps)







































lemma index_rank_Some: "array_index (fst kv) = Some j \<Longrightarrow> index_rank kv = j"
  by (simp add: index_rank_def)











section \<open>The request builder\<close>




section \<open>Settling the promise\<close>

text \<open>
  Claim C2. When the call receives a response whose status code is below 200 or above
  299, the promise is rejected with the error whose message ends with that status code,
  whatever the chunks of the body, the parser and \<open>deserializeJSON\<close> are: the handler of
  \<open>end\<close> still runs, and its \<open>resolve\<close> or \<open>reject\<close> finds the promise settled.
\<close>

theorem status_outside_range_rejects:
  assumes "private_buildRPCReq this m params = Inr req"
    and "URL_new (url req) = Inr u"
    and "network rt (request_of u req) = Response statusCode chunks"
    and "statusCode < 200 \<or> 299 < statusCode"
  shows "promise (private_send this rt m params) =
           Rejected (Error (''Failed to fetch URL. Status code: '' @ Number_toString statusCode))"
  using assms(4)
  by (auto simp: private_send_response [OF assms(1-3)] response_callback_def response_end_def Let_def
           split: sum.splits)

text \<open>
  A 404 whose body is valid JSON, received by a decoding client: the promise is rejected
  with the status code.
\<close>

theorem status_outside_range_rejects_witness:
  \<open>network not_found_runtime (request_of example_url example_req) = Response 404 [''{"count"'', '':"1"}''] \<and>
   ToBoolean (deserializeJSON example_client) \<and>
   JSON_parse not_found_runtime ''{"count":"1"}'' = Inr (Obj [(''count'', Str ''1'')]) \<and>
   promise (private_send example_client not_found_runtime ''block_count'' Undefined) =
     Rejected (Error ''Failed to fetch URL. Status code: 404'')\<close>
proof -
  have net: \<open>network not_found_runtime (request_of example_url example_req) = Response 404 [''{"count"'', '':"1"}'']\<close>
    by (simp add: not_found_runtime_def)
  have dec: "ToBoolean (deserializeJSON example_client)"
    by (simp add: example_client_def RaiClient_def dflt_def)
  have parse: \<open>JSON_parse not_found_runtime ''{"count":"1"}'' = Inr (Obj [(''count'', Str ''1'')])\<close>
    by (simp add: not_found_runtime_def example_parse_def)
  have "promise (private_send example_client not_found_runtime ''block_count'' Undefined) =
          Rejected (Error (''Failed to fetch URL. Status code: '' @ Number_toString 404))"
    using status_outside_range_rejects [OF example_build example_parse_url net] by simp
  then show ?thesis using net dec parse by (simp add: toString_404)
qed

text \<open>
  Claim C3. When \<open>deserializeJSON\<close> is truthy, the status code is in 200..299 and
  \<open>JSON.parse\<close> throws on the joined body, the promise is rejected with the exception of
  the parser.
\<close>

theorem invalid_json_rejects:
  assumes "private_buildRPCReq this m params = Inr req"
    and "URL_new (url req) = Inr u"
    and "network rt (request_of u req) = Response statusCode chunks"
    and "200 \<le> statusCode \<and> statusCode \<le> 299"
    and "ToBoolean (deserializeJSON this)"
    and "JSON_parse rt (concat chunks) = Inl e"
  shows "promise (private_send this rt m params) = Rejected e"
  using assms(4-6)
  by (simp add: private_send_response [OF assms(1-3)] response_callback_def response_end_def Let_def
        join_empty_sep)

text \<open>A node that answers 200 with an HTML page.\<close>

theorem invalid_json_rejects_witness:
  \<open>network html_runtime (request_of example_url example_req) = Response 200 [''<html>'', ''</html>''] \<and>
   JSON_parse html_runtime ''<html></html>'' = Inl (SyntaxError ''Unexpected token < in JSON at position 0'') \<and>
   promise (private_send example_client html_runtime ''block_count'' Undefined) =
     Rejected (SyntaxError ''Unexpected token < in JSON at position 0'')\<close>
proof -
  have net: \<open>network html_runtime (request_of example_url example_req) = Response 200 [''<html>'', ''</html>'']\<close>
    by (simp add: html_runtime_def)
  have dec: "ToBoolean (deserializeJSON example_client)"
    by (simp add: example_client_def RaiClient_def dflt_def)
  have parse: \<open>JSON_parse html_runtime (concat [''<html>'', ''</html>'']) =
                 Inl (SyntaxError ''Unexpected token < in JSON at position 0'')\<close>
    by (simp add: html_runtime_def example_parse_def)
  have "promise (private_send example_client html_runtime ''block_count'' Undefined) =
          Rejected (SyntaxError ''Unexpected token < in JSON at position 0'')"
    using invalid_json_rejects [OF example_build example_parse_url net _ dec parse] by simp
  then show ?thesis using net parse by simp
qed

text \<open>
  Claim C4. When \<open>deserializeJSON\<close> is falsy, no call of \<open>JSON.parse\<close> occurs in the trace
  of the call, whatever happens; and when the status code is in 200..299 the promise is
  fulfilled with the concatenation of the chunks in arrival order, as a string.
\<close>

theorem raw_text_when_decoding_disabled:
  assumes "\<not> ToBoolean (deserializeJSON this)"
  shows "filter is_parse (trace (private_send this rt m params)) = [] \<and>
         (private_buildRPCReq this m params = Inr req \<and> URL_new (url req) = Inr u \<and>
          network rt (request_of u req) = Response statusCode chunks \<and>
          200 \<le> statusCode \<and> statusCode \<le> 299 \<longrightarrow>
            private_send this rt m params =
              \<lparr>promise = Fulfilled (Str (concat chunks)), trace = [HttpRequest (request_of u req)]\<rparr>)"
proof (intro conjI impI)
  show "filter is_parse (trace (private_send this rt m params)) = []"
    using assms by (rule no_parse_when_disabled)
next
  assume h: "private_buildRPCReq this m params = Inr req \<and> URL_new (url req) = Inr u \<and>
          network rt (request_of u req) = Response statusCode chunks \<and>
          200 \<le> statusCode \<and> statusCode \<le> 299"
  then have "private_send this rt m params =
           response_callback this rt statusCode chunks
             \<lparr>promise = Pending, trace = [HttpRequest (request_of u req)]\<rparr>"
    by (simp add: private_send_response)
  then show "private_send this rt m params =
              \<lparr>promise = Fulfilled (Str (concat chunks)), trace = [HttpRequest (request_of u req)]\<rparr>"
    using h assms by (simp add: response_callback_def response_end_def Let_def join_empty_sep)
qed

text \<open>A client built with \<open>deserializeJSON = false\<close> gets the text of the two chunks.\<close>

theorem raw_text_when_decoding_disabled_witness:
  \<open>\<not> ToBoolean (deserializeJSON raw_client) \<and>
   network example_runtime (request_of example_url example_req) = Response 200 [''{"count"'', '':"1"}''] \<and>
   private_send raw_client example_runtime ''block_count'' Undefined =
     \<lparr>promise = Fulfilled (Str ''{"count":"1"}''), trace = [HttpRequest (request_of example_url example_req)]\<rparr>\<close>
proof -
  have raw: "\<not> ToBoolean (deserializeJSON raw_client)"
    by (simp add: raw_client_def RaiClient_def dflt_def)
  have net: \<open>network example_runtime (request_of example_url example_req) = Response 200 [''{"count"'', '':"1"}'']\<close>
    by (simp add: example_runtime_def)
  show ?thesis
    using raw_text_when_decoding_disabled [OF raw, of example_runtime "''block_count''" Undefined
            example_req example_url 200 \<open>[''{"count"'', '':"1"}'']\<close>]
          raw net raw_build example_parse_url
    by simp
qed

text \<open>
  Claim C6. When the parameters are given and \<open>JSON.stringify\<close> throws on the object
  \<open>{action, ...params}\<close>, the promise is rejected with the \<open>Error\<close> that wraps the
  exception and the trace of the call is empty: no request was issued.
\<close>

theorem serialization_failure_before_network:
  assumes "params \<noteq> Undefined"
    and "SerializeJSONObject (spread [(''action'', Str m)] params) = Inl e"
  shows "private_send this rt m params = \<lparr>promise = Rejected (new_Error e), trace = []\<rparr>"
  using assms by (simp add: private_send_def private_buildRPCReq_def JSON_stringify_def)

text \<open>An account that refers back to the object that holds it.\<close>

theorem serialization_failure_before_network_witness:
  "SerializeJSONObject (spread [(''action'', Str ''account_balance'')] (Obj [(''account'', Cyclic)])) =
     Inl (TypeError ''Converting circular structure to JSON'') \<and>
   private_send example_client example_runtime ''account_balance'' (Obj [(''account'', Cyclic)]) =
     \<lparr>promise = Rejected (Error ''TypeError: Converting circular structure to JSON''), trace = []\<rparr>"
proof -
  have ser: "SerializeJSONObject (spread [(''action'', Str ''account_balance'')] (Obj [(''account'', Cyclic)])) =
     Inl (TypeError ''Converting circular structure to JSON'')"
    by code_simp
  have err: "new_Error (TypeError ''Converting circular structure to JSON'') =
               Error ''TypeError: Converting circular structure to JSON''"
    by (simp add: new_Error_def error_toString_def)
  show ?thesis
    using serialization_failure_before_network [OF _ ser, of example_client example_runtime] ser err
    by simp
qed

section \<open>The request on the wire\<close>

text \<open>
  Claim C5, evaluated on a node address with the scheme \<open>https\<close>: the parsed protocol is
  \<open>https:\<close>, the comparison with \<open>"https"\<close> fails and the request is issued through the
  \<open>http\<close> module.
\<close>

theorem https_url_sent_over_http:
  "nodeAddress https_client = ''https://node.example:7076'' \<and>
   map lib (requests (private_send https_client example_runtime ''block_count'' Undefined)) = [Http] \<and>
   map options (requests (private_send https_client example_runtime ''block_count'' Undefined)) =
     [\<lparr>hostname = ''node.example'', port = ''7076'', http_method = ''POST'', path = ''/''\<rparr>]"
  by code_simp

text \<open>
  Claim C7 as stated asks for a header that indicates JSON content. The request that
  \<open>block_count\<close> issues is a POST without any header.
\<close>

theorem json_header_counterexample:
  \<open>requests (private_send example_client example_runtime ''block_count'' Undefined) =
     [\<lparr>lib = Http,
       options = \<lparr>hostname = ''[::1]'', port = ''7076'', http_method = ''POST'', path = ''/''\<rparr>,
       headers = [], written = ''{"action":"block_count"}''\<rparr>] \<and>
   \<not> list_all json_post (requests (private_send example_client example_runtime ''block_count'' Undefined))\<close>
  by code_simp

text \<open>
  Claim C7, amended. When the descriptor is built and its url is parsed, the call issues
  exactly one request: a POST to the host, port and path of the parsed url, with no
  header set by the client and with the body of the descriptor written to it. When the
  builder fails, no request is issued.
\<close>

theorem single_post_without_headers:
  "(private_buildRPCReq this m params = Inr req \<and> URL_new (url req) = Inr u \<longrightarrow>
      (\<exists>rq. requests (private_send this rt m params) = [rq] \<and>
            options rq = \<lparr>hostname = url_hostname u, port = url_port u, http_method = ''POST'', path = url_pathname u\<rparr> \<and>
            headers rq = [] \<and> written rq = body req)) \<and>
   ((\<exists>e. private_buildRPCReq this m params = Inl e) \<longrightarrow> requests (private_send this rt m params) = [])"
  by (auto simp: private_send_def requests_def response_callback_def response_end_def request_of_def Let_def
           split: sum.splits net_result.splits)

text \<open>The one request of \<open>block_count\<close> on the example client.\<close>

theorem single_post_without_headers_witness:
  \<open>map options (requests (private_send example_client example_runtime ''block_count'' Undefined)) =
     [\<lparr>hostname = ''[::1]'', port = ''7076'', http_method = ''POST'', path = ''/''\<rparr>] \<and>
   map headers (requests (private_send example_client example_runtime ''block_count'' Undefined)) = [[]] \<and>
   map written (requests (private_send example_client example_runtime ''block_count'' Undefined)) =
     [''{"action":"block_count"}'']\<close>
  using single_post_without_headers [of example_client "''block_count''" Undefined example_req example_url example_runtime]
        example_build example_parse_url
  by (auto simp: example_url_def example_req_def)

section \<open>Public methods and their parameters\<close>

text \<open>
  Claim C8, evaluated: \<open>representatives(5, true)\<close> sends only the action, where \<open>ledger\<close>
  does send its \<open>count\<close> and \<open>sorting\<close>; \<open>accounts_create("w", 2, true)\<close> sends \<open>accounts\<close> and
  \<open>count\<close> without \<open>work\<close>, where \<open>account_create\<close> does send its \<open>work\<close>.
\<close>

theorem representatives_arguments_dropped:
  \<open>map written (requests (representatives example_client example_runtime (Num 5) (Bool True))) =
     [''{"action":"representatives"}''] \<and>
   map written (requests (ledger example_client example_runtime (Str ''x'') (Num 5) Undefined Undefined Undefined (Bool True))) =
     [''{"action":"ledger","account":"x","count":5,"representative":false,"weight":false,"pending":false,"sorting":true}''] \<and>
   map written (requests (accounts_create example_client example_runtime (Str ''w'') (Num 2) (Bool True))) =
     [''{"action":"accounts_create","accounts":"w","count":2}''] \<and>
   map written (requests (account_create example_client example_runtime (Str ''w'') (Bool False))) =
     [''{"action":"account_create","wallet":"w","work":false}'']\<close>
  by code_simp

text \<open>
  Claim C10. When \<open>accounts_pending\<close> is called without a threshold, the parameter object
  holds the Number 999999999999999983222784 under \<open>threshold\<close>. This is the double
  nearest to the literal \<open>1000000000000000000000000\<close>: it is a 53-bit integer times \<open>2^27\<close>,
  and it differs from the literal by less than \<open>2^26\<close>, half the distance between
  neighbouring doubles of that size. \<open>JSON.stringify\<close> prints it as \<open>1e+24\<close>, and so it
  appears in the body of the request.
\<close>

theorem accounts_pending_default_threshold:
  \<open>accounts_pending_params accounts count Undefined source =
     Obj [(''accounts'', accounts), (''count'', dflt (Num 1) count),
          (''threshold'', Num 999999999999999983222784), (''source'', dflt (Bool False) source)] \<and>
   SerializeJSONProperty (Num 999999999999999983222784) = Inr (Some ''1e+24'') \<and>
   (999999999999999983222784 :: int) = 7450580596923828 * 2 ^ 27 \<and>
   (2 :: int) ^ 52 \<le> 7450580596923828 \<and> (7450580596923828 :: int) < 2 ^ 53 \<and>
   \<bar>1000000000000000000000000 - 999999999999999983222784 :: int\<bar> < 2 ^ 26 \<and>
   (999999999999999983222784 :: int) \<noteq> 1000000000000000000000000 \<and>
   map written (requests (accounts_pending example_client example_runtime (Arr []) Undefined Undefined Undefined)) =
     [''{"action":"accounts_pending","accounts":[],"count":1,"threshold":1e+24,"source":false}'']\<close>
proof (intro conjI)
  have r: "round_to_double 1000000000000000000000000 = 999999999999999983222784"
    by code_simp
  have one: "round_to_double 1 = 1"
    by (simp add: round_to_double_def)
  show \<open>accounts_pending_params accounts count Undefined source =
     Obj [(''accounts'', accounts), (''count'', dflt (Num 1) count),
          (''threshold'', Num 999999999999999983222784), (''source'', dflt (Bool False) source)]\<close>
    by (simp add: accounts_pending_params_def NumericLiteral_def r one dflt_def)
  show \<open>SerializeJSONProperty (Num 999999999999999983222784) = Inr (Some ''1e+24'')\<close>
    by code_simp
  show \<open>map written (requests (accounts_pending example_client example_runtime (Arr []) Undefined Undefined Undefined)) =
     [''{"action":"accounts_pending","accounts":[],"count":1,"threshold":1e+24,"source":false}'']\<close>
    by code_simp
qed simp_all

section \<open>The two implementations of \<open>_send\<close>\<close>

text \<open>
  Claim C9, evaluated on a decoding client and a node that answers 200 with
  \<open>{"count":"1"}\<close>: the \<open>http\<close> variant resolves with the parsed object, the \<open>request\<close>
  variant with the raw text. On a 404 the \<open>http\<close> variant rejects and the \<open>request\<close> variant
  resolves. The same holds for the client of the IPv4 address.
\<close>

theorem request_variant_returns_raw_text:
  \<open>ToBoolean (deserializeJSON example_client) \<and>
   promise (private_send example_client example_runtime ''block_count'' Undefined) =
     Fulfilled (Obj [(''count'', Str ''1'')]) \<and>
   promise (request_private_send example_client example_runtime ''block_count'' Undefined) =
     Fulfilled (Str ''{"count":"1"}'') \<and>
   promise (private_send raw_client not_found_runtime ''block_count'' Undefined) =
     Rejected (Error ''Failed to fetch URL. Status code: 404'') \<and>
   promise (request_private_send raw_client not_found_runtime ''block_count'' Undefined) =
     Fulfilled (Str ''{"count":"1"}'') \<and>
   promise (private_send local_client example_runtime ''block_count'' Undefined) =
     Fulfilled (Obj [(''count'', Str ''1'')]) \<and>
   promise (request_private_send local_client example_runtime ''block_count'' Undefined) =
     Fulfilled (Str ''{"count":"1"}'')\<close>
  by code_simp

end
